theory Spec2Isabelle
  imports
    Complex_Main
    "HOL-Library.Multiset"
    "HOL-Library.Char_ord"
    "HOL-Library.List_Lexorder"
begin

section \<open>The records served by the API\<close>

text \<open>
  \<^verbatim>\<open>app.py\<close> reads every record with \<^verbatim>\<open>dict.get(key, default)\<close>, so a record is
  a dictionary in which each key may be absent. The fields are typed as the API documents
  them: strings, integers, a list of author dictionaries.
\<close>

record author =
  name :: "string option"

record paper_info =
  ident :: "string option"         \<comment> \<open>key \<^verbatim>\<open>id\<close>\<close>
  upvotes :: "int option"
  authors :: "author list option"

record item =
  title :: "string option"
  paper :: "paper_info option"
  publishedAt :: "string option"
  numComments :: "int option"

definition dict_get :: "'a option \<Rightarrow> 'a \<Rightarrow> 'a" where
  \<comment> \<open>\<^verbatim>\<open>d.get(key, default)\<close>, applied to the entry of the key\<close>
  "dict_get entry dflt = (case entry of None \<Rightarrow> dflt | Some v \<Rightarrow> v)"

definition empty_dict :: paper_info where
  \<comment> \<open>the \<^verbatim>\<open>{}\<close> in \<^verbatim>\<open>paper.get('paper', {})\<close>\<close>
  "empty_dict = \<lparr>ident = None, upvotes = None, authors = None\<rparr>"

section \<open>Python values, exceptions and the standard library\<close>

datatype py_error = ValueError | TypeError | ZeroDivisionError | RequestException

text \<open>
  A sort key is a float or a complex number (a score) or a string (a raw timestamp).
  Floats are modelled by the reals: rounding and overflow of IEEE doubles are not
  represented.
\<close>

datatype pyval = PFloat real | PComplex complex | PStr string

text \<open>
  A \<^verbatim>\<open>datetime\<close> is aware (an instant, in microseconds since the epoch, UTC) or
  naive (a wall-clock reading with no offset).
\<close>

datatype datetime = Aware int | Naive int

text \<open>
  \<^verbatim>\<open>datetime.fromisoformat\<close> and \<^verbatim>\<open>datetime.isoformat\<close> belong to the standard
  library; the program is modelled over any pair of them. \<open>None\<close> stands for the
  \<^verbatim>\<open>ValueError\<close> of a string that does not parse.
\<close>

record pylib =
  fromisoformat :: "string \<Rightarrow> datetime option"
  isoformat :: "int \<Rightarrow> string"

datatype log_event =
    NoDataReceived                 \<comment> \<open>\<^verbatim>\<open>print("No data received from API.")\<close>\<close>
  | KeysInFirstPaper item          \<comment> \<open>\<^verbatim>\<open>print("Keys in the first paper:", data[0].keys())\<close>\<close>
  | ErrorFetching py_error         \<comment> \<open>\<^verbatim>\<open>print(f"Error fetching papers: {e}")\<close>\<close>
  | UnexpectedError py_error       \<comment> \<open>\<^verbatim>\<open>print(f"Unexpected error: {e}")\<close>\<close>
  | SettingSortMethod string       \<comment> \<open>\<^verbatim>\<open>print(f"Setting sort method to: {method}")\<close>\<close>
  | ChangingSortMethod string      \<comment> \<open>\<^verbatim>\<open>print(f"Changing sort method to: {method_lower}")\<close>\<close>
  | SortMethodSet                  \<comment> \<open>\<^verbatim>\<open>print("Sort method set successfully.")\<close>\<close>
  | FailedToSetSortMethod          \<comment> \<open>\<^verbatim>\<open>print("Failed to set sort method.")\<close>\<close>

text \<open>
  The world outside the program: the system clock, as the sequence of the readings it
  will give (microseconds since the epoch), the number of readings taken so far, and
  what has been printed.
\<close>

record world =
  ticks :: "nat \<Rightarrow> int"
  reads :: nat
  stdout :: "log_event list"

definition now :: "world \<Rightarrow> int \<times> world" where
  \<comment> \<open>\<^verbatim>\<open>datetime.now(timezone.utc)\<close>\<close>
  "now w = (ticks w (reads w), w\<lparr>reads := Suc (reads w)\<rparr>)"

definition print :: "log_event \<Rightarrow> world \<Rightarrow> world" where
  "print e w = w\<lparr>stdout := stdout w @ [e]\<rparr>"

definition replace_Z :: "string \<Rightarrow> string" where
  \<comment> \<open>\<^verbatim>\<open>s.replace('Z', '+00:00')\<close>\<close>
  "replace_Z s = concat (map (\<lambda>c. if c = CHR ''Z'' then ''+00:00'' else [c]) s)"

definition lower :: "string \<Rightarrow> string" where
  \<comment> \<open>\<^verbatim>\<open>s.lower()\<close> on the ASCII letters; other characters are kept\<close>
  "lower s =
     map (\<lambda>c. case map_of (zip ''ABCDEFGHIJKLMNOPQRSTUVWXYZ'' ''abcdefghijklmnopqrstuvwxyz'') c of
                 Some l \<Rightarrow> l | None \<Rightarrow> c) s"

definition total_hours :: "int \<Rightarrow> real" where
  \<comment> \<open>\<^verbatim>\<open>time_diff.total_seconds() / 3600\<close> of a difference in microseconds\<close>
  "total_hours d = real_of_int d / 1000000 / 3600"

definition float_pow_1_5 :: "real \<Rightarrow> pyval" where
  \<comment> \<open>\<^verbatim>\<open>x ** 1.5\<close> on a float: a negative base gives a complex number,
      \<open>|x|\<^sup>1\<^sup>.\<^sup>5 (cos (3\<pi>/2) + i sin (3\<pi>/2))\<close>\<close>
  "float_pow_1_5 x =
     (if x < 0 then PComplex (Complex 0 (- ((- x) powr 1.5)))
      else if x = 0 then PFloat 0
      else PFloat (x powr 1.5))"

definition truediv :: "int \<Rightarrow> pyval \<Rightarrow> py_error + pyval" where
  \<comment> \<open>\<^verbatim>\<open>upvotes / y\<close> for an integer \<^verbatim>\<open>upvotes\<close>\<close>
  "truediv n y =
     (case y of
        PFloat d \<Rightarrow> if d = 0 then Inl ZeroDivisionError else Inr (PFloat (real_of_int n / d))
      | PComplex z \<Rightarrow> if z = 0 then Inl ZeroDivisionError else Inr (PComplex (of_int n / z))
      | PStr _ \<Rightarrow> Inl TypeError)"

definition py_lt :: "pyval \<Rightarrow> pyval \<Rightarrow> py_error + bool" where
  \<comment> \<open>\<^verbatim>\<open>a < b\<close>: floats by value, strings lexicographically, anything else a
      \<^verbatim>\<open>TypeError\<close>\<close>
  "py_lt a b =
     (case (a, b) of
        (PFloat x, PFloat y) \<Rightarrow> Inr (x < y)
      | (PStr s, PStr t) \<Rightarrow> Inr (s < t)
      | _ \<Rightarrow> Inl TypeError)"

text \<open>
  \<^verbatim>\<open>sorted(xs, key=f, reverse=True)\<close>: the keys are computed first, one call of
  \<^verbatim>\<open>f\<close> per element in list order; an exception of \<^verbatim>\<open>f\<close> or of a comparison
  ends the sort. The order is descending and stable. It is modelled by an insertion sort
  that uses only \<^verbatim>\<open><\<close>, as CPython's sort does; on fewer than two elements it
  compares nothing.
\<close>

fun insort_desc :: "pyval \<times> 'a \<Rightarrow> (pyval \<times> 'a) list \<Rightarrow> py_error + (pyval \<times> 'a) list" where
  "insort_desc p [] = Inr [p]"
| "insort_desc p (q # qs) =
     (case py_lt (fst p) (fst q) of
        Inl e \<Rightarrow> Inl e
      | Inr True \<Rightarrow> (case insort_desc p qs of Inl e \<Rightarrow> Inl e | Inr r \<Rightarrow> Inr (q # r))
      | Inr False \<Rightarrow> Inr (p # q # qs))"

fun sort_desc :: "(pyval \<times> 'a) list \<Rightarrow> py_error + (pyval \<times> 'a) list" where
  "sort_desc [] = Inr []"
| "sort_desc (p # ps) =
     (case sort_desc ps of Inl e \<Rightarrow> Inl e | Inr ys \<Rightarrow> insort_desc p ys)"

fun compute_keys ::
  "('a \<Rightarrow> world \<Rightarrow> (py_error + pyval) \<times> world) \<Rightarrow> 'a list \<Rightarrow> world
     \<Rightarrow> (py_error + (pyval \<times> 'a) list) \<times> world" where
  "compute_keys f [] w = (Inr [], w)"
| "compute_keys f (x # xs) w =
     (case f x w of
        (Inl e, w1) \<Rightarrow> (Inl e, w1)
      | (Inr k, w1) \<Rightarrow>
          (case compute_keys f xs w1 of
             (Inl e, w2) \<Rightarrow> (Inl e, w2)
           | (Inr ks, w2) \<Rightarrow> (Inr ((k, x) # ks), w2)))"

definition sorted_reverse ::
  "('a \<Rightarrow> world \<Rightarrow> (py_error + pyval) \<times> world) \<Rightarrow> 'a list \<Rightarrow> world
     \<Rightarrow> (py_error + 'a list) \<times> world" where
  "sorted_reverse f xs w =
     (case compute_keys f xs w of
        (Inl e, w1) \<Rightarrow> (Inl e, w1)
      | (Inr ks, w1) \<Rightarrow>
          (case sort_desc ks of
             Inl e \<Rightarrow> (Inl e, w1)
           | Inr ys \<Rightarrow> (Inr (map snd ys), w1)))"

section \<open>PaperManager\<close>

record PaperManager =
  papers_per_page :: int
  current_page :: int
  papers :: "item list"
  total_pages :: int
  sort_method :: string
  raw_papers :: "item list"

definition init :: "int \<Rightarrow> PaperManager" where
  \<comment> \<open>\<^verbatim>\<open>PaperManager.__init__\<close>\<close>
  "init per_page =
     \<lparr>papers_per_page = per_page, current_page = 1, papers = [], total_pages = 1,
      sort_method = ''hot'', raw_papers = []\<rparr>"

definition paper_manager :: PaperManager where
  \<comment> \<open>\<^verbatim>\<open>paper_manager = PaperManager()\<close>\<close>
  "paper_manager = init 30"

subsection \<open>Scores\<close>

definition published_time_of :: "pylib \<Rightarrow> item \<Rightarrow> world \<Rightarrow> datetime \<times> world" where
  \<comment> \<open>the block shared by \<^verbatim>\<open>calculate_score\<close> (lines 22-27),
      \<^verbatim>\<open>calculate_rising_score\<close> (42-46) and \<^verbatim>\<open>format_paper\<close> (124-128):
      the default of \<^verbatim>\<open>get\<close> is evaluated, and the clock read, even when the key is
      present\<close>
  "published_time_of L p w0 =
     (let (t1, w1) = now w0;
          published_at_str = dict_get (publishedAt p) (isoformat L t1)
      in case fromisoformat L (replace_Z published_at_str) of
           Some published_time \<Rightarrow> (published_time, w1)
         | None \<Rightarrow> (let (t2, w2) = now w1 in (Aware t2, w2)))"

definition time_diff_of :: "datetime \<Rightarrow> world \<Rightarrow> (py_error + int) \<times> world" where
  \<comment> \<open>\<^verbatim>\<open>datetime.now(timezone.utc) - published_time\<close>, in microseconds; a naive
      \<^verbatim>\<open>published_time\<close> cannot be subtracted from an aware one\<close>
  "time_diff_of published_time w =
     (let (t, w1) = now w
      in case published_time of
           Aware tp \<Rightarrow> (Inr (t - tp), w1)
         | Naive _ \<Rightarrow> (Inl TypeError, w1))"

definition calculate_score :: "pylib \<Rightarrow> item \<Rightarrow> world \<Rightarrow> (py_error + pyval) \<times> world" where
  "calculate_score L p w =
     (let upvotes = dict_get (upvotes (dict_get (paper p) empty_dict)) 0;
          (published_time, w1) = published_time_of L p w;
          (time_diff, w2) = time_diff_of published_time w1
      in case time_diff of
           Inl e \<Rightarrow> (Inl e, w2)
         | Inr d \<Rightarrow>
             (let time_diff_hours = total_hours d
              in (truediv upvotes (float_pow_1_5 (time_diff_hours + 2)), w2)))"

definition calculate_rising_score ::
  "pylib \<Rightarrow> item \<Rightarrow> world \<Rightarrow> (py_error + pyval) \<times> world" where
  "calculate_rising_score L p w =
     (let upvotes = dict_get (upvotes (dict_get (paper p) empty_dict)) 0;
          (published_time, w1) = published_time_of L p w;
          (time_diff, w2) = time_diff_of published_time w1
      in case time_diff of
           Inl e \<Rightarrow> (Inl e, w2)
         | Inr d \<Rightarrow>
             (let time_diff_hours = total_hours d
              in (truediv upvotes (PFloat (time_diff_hours + 1)), w2)))"

subsection \<open>Sorting\<close>

definition new_key :: "item \<Rightarrow> world \<Rightarrow> (py_error + pyval) \<times> world" where
  \<comment> \<open>\<^verbatim>\<open>lambda x: x.get('publishedAt', '')\<close>\<close>
  "new_key x w = (Inr (PStr (dict_get (publishedAt x) '''')), w)"

definition sort_papers ::
  "pylib \<Rightarrow> PaperManager \<Rightarrow> world \<Rightarrow> (py_error + unit) \<times> PaperManager \<times> world" where
  "sort_papers L self w =
     (let (r, w1) =
            (if sort_method self = ''hot'' then
               sorted_reverse (calculate_score L) (raw_papers self) w
             else if sort_method self = ''new'' then
               sorted_reverse new_key (raw_papers self) w
             else if sort_method self = ''rising'' then
               sorted_reverse (calculate_rising_score L) (raw_papers self) w
             else
               sorted_reverse (calculate_score L) (raw_papers self) w)
      in case r of
           Inl e \<Rightarrow> (Inl e, self, w1)
         | Inr ys \<Rightarrow> (Inr (), self\<lparr>papers := ys\<rparr>, w1))"

definition set_sort_method ::
  "pylib \<Rightarrow> string \<Rightarrow> PaperManager \<Rightarrow> world \<Rightarrow> (py_error + bool) \<times> PaperManager \<times> world" where
  "set_sort_method L method0 self w =
     (let method = (if method0 \<notin> set [''hot'', ''new'', ''rising''] then ''hot'' else method0);
          w1 = print (SettingSortMethod method) w;
          self1 = self\<lparr>sort_method := method\<rparr>
      in case sort_papers L self1 w1 of
           (Inl e, self2, w2) \<Rightarrow> (Inl e, self2, w2)
         | (Inr _, self2, w2) \<Rightarrow> (Inr True, self2\<lparr>current_page := 1\<rparr>, w2))"

definition fetch_papers ::
  "pylib \<Rightarrow> py_error + item list \<Rightarrow> PaperManager \<Rightarrow> world \<Rightarrow> bool \<times> PaperManager \<times> world" where
  \<comment> \<open>\<open>response\<close> is what \<^verbatim>\<open>requests.get\<close>, \<^verbatim>\<open>raise_for_status\<close> and
      \<^verbatim>\<open>response.json()\<close> give: the exception raised, or the decoded list\<close>
  "fetch_papers L response self w =
     (let handler = (\<lambda>e. if e = RequestException then ErrorFetching e else UnexpectedError e)
      in case response of
           Inl e \<Rightarrow> (False, self, print (handler e) w)
         | Inr [] \<Rightarrow> (False, self, print NoDataReceived w)
         | Inr (first # rest) \<Rightarrow>
             (let data = first # rest;
                  w1 = print (KeysInFirstPaper first) w;
                  self1 = self\<lparr>raw_papers := data\<rparr>
              in case sort_papers L self1 w1 of
                   (Inl e, self2, w2) \<Rightarrow> (False, self2, print (handler e) w2)
                 | (Inr _, self2, w2) \<Rightarrow>
                     if papers_per_page self2 = 0 then
                       (False, self2, print (handler ZeroDivisionError) w2)
                     else
                       (True,
                        self2\<lparr>total_pages :=
                                 max ((int (length (papers self2)) + papers_per_page self2 - 1)
                                        div papers_per_page self2) 1,
                               current_page := 1\<rparr>,
                        w2)))"

subsection \<open>Rendering\<close>

function str_nat :: "nat \<Rightarrow> string" where
  "str_nat n = (if n < 10 then [''0123456789'' ! n]
                else str_nat (n div 10) @ [''0123456789'' ! (n mod 10)])"
  by pat_completeness auto
termination
  by (relation "measure id") auto

definition str_int :: "int \<Rightarrow> string" where
  \<comment> \<open>an integer in an f-string\<close>
  "str_int i = (if i < 0 then ''-'' @ str_nat (nat (- i)) else str_nat (nat i))"

fun join :: "string \<Rightarrow> string list \<Rightarrow> string" where
  "join sep [] = []"
| "join sep [x] = x"
| "join sep (x # y # ys) = x @ sep @ join sep (y # ys)"

definition line :: "nat \<Rightarrow> string \<Rightarrow> string" where
  \<comment> \<open>one line of a triple-quoted string: its indentation, its text, the newline\<close>
  "line n s = replicate n (CHR '' '') @ s @ [CHR 0x0A]"

definition format_paper ::
  "pylib \<Rightarrow> item \<Rightarrow> int \<Rightarrow> world \<Rightarrow> (py_error + string) \<times> world" where
  \<open>format_paper L p rank w =
     (let title = dict_get (title p) ''No title'';
          paper_id = dict_get (ident (dict_get (paper p) empty_dict)) [];
          url = ''https://huggingface.co/papers/'' @ paper_id;
          joined = join '', '' (map (\<lambda>author. dict_get (name author) [])
                                  (dict_get (authors (dict_get (paper p) empty_dict)) []));
          authors = (if joined = [] then ''Unknown'' else joined);
          upvotes = dict_get (upvotes (dict_get (paper p) empty_dict)) 0;
          comments = dict_get (numComments p) 0;
          (published_time, w1) = published_time_of L p w;
          (time_diff, w2) = time_diff_of published_time w1
      in case time_diff of
           Inl e \<Rightarrow> (Inl e, w2)
         | Inr d \<Rightarrow>
             (let time_ago_days = d div 86400000000;
                  time_ago = (if time_ago_days > 0 then str_int time_ago_days @ '' days ago''
                              else ''today'')
              in (Inr (line 0 []
                     @ line 8 ''<tr class="athing">''
                     @ line 12 (''<td align="right" valign="top" class="title"><span class="rank">''
                              @ str_int rank @ ''.</span></td>'')
                     @ line 12 ''<td valign="top" class="title">''
                     @ line 16 (''<a href="'' @ url @ ''" class="storylink" target="_blank">''
                              @ title @ ''</a>'')
                     @ line 12 ''</td>''
                     @ line 8 ''</tr>''
                     @ line 8 ''<tr>''
                     @ line 12 ''<td colspan="2" class="subtext">''
                     @ line 16 (''<span class="score">'' @ str_int upvotes
                              @ '' points</span> Authors: '' @ authors @ '' '' @ time_ago
                              @ '' | '' @ str_int comments @ '' comments'')
                     @ line 12 ''</td>''
                     @ line 8 ''</tr>''
                     @ line 8 ''<tr class="spacer"><td colspan="2"></td></tr>''
                     @ replicate 8 (CHR '' '')), w2)))\<close>

definition slice :: "'a list \<Rightarrow> int \<Rightarrow> int \<Rightarrow> 'a list" where
  \<comment> \<open>\<^verbatim>\<open>xs[start:end]\<close>: a negative bound counts from the end, and both are clamped\<close>
  "slice xs start end =
     (let n = int (length xs);
          lo = (if start < 0 then max (start + n) 0 else min start n);
          hi = (if end < 0 then max (end + n) 0 else min end n)
      in take (nat (hi - lo)) (drop (nat lo) xs))"

fun format_papers ::
  "pylib \<Rightarrow> int \<Rightarrow> int \<Rightarrow> item list \<Rightarrow> world \<Rightarrow> (py_error + string list) \<times> world" where
  "format_papers L start idx [] w = (Inr [], w)"
| "format_papers L start idx (p # ps) w =
     (case format_paper L p (idx + start + 1) w of
        (Inl e, w1) \<Rightarrow> (Inl e, w1)
      | (Inr h, w1) \<Rightarrow>
          (case format_papers L start (idx + 1) ps w1 of
             (Inl e, w2) \<Rightarrow> (Inl e, w2)
           | (Inr hs, w2) \<Rightarrow> (Inr (h # hs), w2)))"

definition no_papers_available :: string where
  "no_papers_available = ''<div class='' @ [CHR 0x27] @ ''no-papers'' @ [CHR 0x27]
                           @ ''>No papers available for this page.</div>''"

definition failed_to_fetch :: string where
  "failed_to_fetch = ''<div class='' @ [CHR 0x27] @ ''no-papers'' @ [CHR 0x27]
                       @ ''>Failed to fetch papers. Please try again later.</div>''"

definition failed_to_sort :: string where
  "failed_to_sort = ''<div class='' @ [CHR 0x27] @ ''no-papers'' @ [CHR 0x27]
                      @ ''>Failed to sort papers. Please try again later.</div>''"

definition render_papers :: "pylib \<Rightarrow> PaperManager \<Rightarrow> world \<Rightarrow> (py_error + string) \<times> world" where
  \<open>render_papers L self w =
     (let start = (current_page self - 1) * papers_per_page self;
          end = start + papers_per_page self;
          current_papers = slice (papers self) start end
      in if current_papers = [] then (Inr no_papers_available, w)
         else case format_papers L start 0 current_papers w of
                (Inl e, w1) \<Rightarrow> (Inl e, w1)
              | (Inr hs, w1) \<Rightarrow>
                  (Inr (line 0 []
                      @ line 8 ''<table border="0" cellpadding="0" cellspacing="0" class="itemlist">''
                      @ line 12 (concat hs)
                      @ line 8 ''</table>''
                      @ replicate 8 (CHR '' '')), w1))\<close>

definition next_page ::
  "pylib \<Rightarrow> PaperManager \<Rightarrow> world \<Rightarrow> (py_error + string) \<times> PaperManager \<times> world" where
  "next_page L self w =
     (let self1 = (if current_page self < total_pages self
                   then self\<lparr>current_page := current_page self + 1\<rparr> else self);
          (r, w1) = render_papers L self1 w
      in (r, self1, w1))"


section \<open>The handlers of the user interface\<close>

text \<open>
  The handlers act on the module's one \<^verbatim>\<open>paper_manager\<close>; its state is passed in and
  returned.
\<close>

definition initialize_app ::
  "pylib \<Rightarrow> py_error + item list \<Rightarrow> PaperManager \<Rightarrow> world
     \<Rightarrow> (py_error + string) \<times> PaperManager \<times> world" where
  "initialize_app L response self w =
     (case fetch_papers L response self w of
        (True, self1, w1) \<Rightarrow> (let (r, w2) = render_papers L self1 w1 in (r, self1, w2))
      | (False, self1, w1) \<Rightarrow> (Inr failed_to_fetch, self1, w1))"

definition change_sort_method ::
  "pylib \<Rightarrow> string \<Rightarrow> PaperManager \<Rightarrow> world \<Rightarrow> (py_error + string) \<times> PaperManager \<times> world" where
  "change_sort_method L method self w =
     (let method_lower = lower method;
          w1 = print (ChangingSortMethod method_lower) w
      in case set_sort_method L method_lower self w1 of
           (Inl e, self1, w2) \<Rightarrow> (Inl e, self1, w2)
         | (Inr True, self1, w2) \<Rightarrow>
             (let (r, w3) = render_papers L self1 (print SortMethodSet w2) in (r, self1, w3))
         | (Inr False, self1, w2) \<Rightarrow>
             (Inr failed_to_sort, self1, print FailedToSetSortMethod w2))"

section \<open>Notions used in the statements\<close>

definition sort_key_of ::
  "pylib \<Rightarrow> string \<Rightarrow> item \<Rightarrow> world \<Rightarrow> (py_error + pyval) \<times> world" where
  \<comment> \<open>the \<^verbatim>\<open>key\<close> that \<^verbatim>\<open>sort_papers\<close> hands to \<^verbatim>\<open>sorted\<close> under a sort method\<close>
  "sort_key_of L method =
     (if method = ''hot'' then calculate_score L
      else if method = ''new'' then new_key
      else if method = ''rising'' then calculate_rising_score L
      else calculate_score L)"


definition descending :: "(pyval \<times> 'a) list \<Rightarrow> bool" where
  \<comment> \<open>no element is followed by one with a greater key\<close>
  "descending ps = sorted_wrt (\<lambda>a b. py_lt (fst a) (fst b) = Inr False) ps"

section \<open>A reference instance of the library\<close>

text \<open>
  The theorems below hold for every \<open>pylib\<close>. For concrete runs, \<open>cpython\<close> reads the
  timestamps \<^verbatim>\<open>YYYY-MM-DD\<close> and \<^verbatim>\<open>YYYY-MM-DDTHH:MM:SS\<close>, the latter with an optional
  fraction of three or six digits and an optional offset \<^verbatim>\<open>+HH:MM\<close> or \<^verbatim>\<open>-HH:MM\<close>,
  and writes an instant as \<^verbatim>\<open>datetime.isoformat\<close> does in UTC. On these strings, on
  the empty string and on strings that do not start with a digit it agrees with
  \<^verbatim>\<open>datetime.fromisoformat\<close> of every CPython from 3.7 on; the other forms that later
  versions read are outside it.
\<close>

definition digits_val :: "string \<Rightarrow> int option" where
  "digits_val s =
     (if s \<noteq> [] \<and> list_all (\<lambda>c. CHR ''0'' \<le> c \<and> c \<le> CHR ''9'') s
      then Some (foldl (\<lambda>a c. 10 * a + (of_char c - 48)) 0 s) else None)"

definition is_leap :: "int \<Rightarrow> bool" where
  "is_leap y = (y mod 4 = 0 \<and> (y mod 100 \<noteq> 0 \<or> y mod 400 = 0))"

definition days_in_month :: "int \<Rightarrow> int \<Rightarrow> int" where
  "days_in_month y m =
     (if m = 2 then (if is_leap y then 29 else 28)
      else if m = 4 \<or> m = 6 \<or> m = 9 \<or> m = 11 then 30 else 31)"

definition days_from_civil :: "int \<Rightarrow> int \<Rightarrow> int \<Rightarrow> int" where
  \<comment> \<open>days from 1970-01-01 to the given date of the proleptic Gregorian calendar\<close>
  "days_from_civil y m d =
     (let y1 = (if m \<le> 2 then y - 1 else y);
          era = y1 div 400;
          yoe = y1 - era * 400;
          doy = (153 * (if m > 2 then m - 3 else m + 9) + 2) div 5 + d - 1;
          doe = yoe * 365 + yoe div 4 - yoe div 100 + doy
      in era * 146097 + doe - 719468)"

definition civil_from_days :: "int \<Rightarrow> int \<times> int \<times> int" where
  "civil_from_days z0 =
     (let z = z0 + 719468;
          era = z div 146097;
          doe = z - era * 146097;
          yoe = (doe - doe div 1460 + doe div 36524 - doe div 146096) div 365;
          doy = doe - (365 * yoe + yoe div 4 - yoe div 100);
          mp = (5 * doy + 2) div 153;
          d = doy - (153 * mp + 2) div 5 + 1;
          m = (if mp < 10 then mp + 3 else mp - 9);
          y = yoe + era * 400
      in (if m \<le> 2 then y + 1 else y, m, d))"

definition parse_date :: "string \<Rightarrow> int option" where
  \<comment> \<open>\<^verbatim>\<open>YYYY-MM-DD\<close> to days since the epoch\<close>
  "parse_date s =
     (case (digits_val (take 4 s), digits_val (take 2 (drop 5 s)), digits_val (drop 8 s)) of
        (Some y, Some m, Some d) \<Rightarrow>
          if length s = 10 \<and> take 1 (drop 4 s) = ''-'' \<and> take 1 (drop 7 s) = ''-''
             \<and> 1 \<le> y \<and> 1 \<le> m \<and> m \<le> 12 \<and> 1 \<le> d \<and> d \<le> days_in_month y m
          then Some (days_from_civil y m d) else None
      | _ \<Rightarrow> None)"

definition parse_clock :: "string \<Rightarrow> int option" where
  \<comment> \<open>\<^verbatim>\<open>HH:MM:SS\<close> to seconds\<close>
  "parse_clock s =
     (case (digits_val (take 2 s), digits_val (take 2 (drop 3 s)), digits_val (drop 6 s)) of
        (Some h, Some m, Some sec) \<Rightarrow>
          if length s = 8 \<and> take 1 (drop 2 s) = '':'' \<and> take 1 (drop 5 s) = '':''
             \<and> h < 24 \<and> m < 60 \<and> sec < 60
          then Some (h * 3600 + m * 60 + sec) else None
      | _ \<Rightarrow> None)"

definition parse_fraction :: "string \<Rightarrow> int option" where
  \<comment> \<open>nothing, \<^verbatim>\<open>.fff\<close> or \<^verbatim>\<open>.ffffff\<close>, to microseconds\<close>
  "parse_fraction s =
     (if s = [] then Some 0
      else if take 1 s = ''.'' \<and> length s = 4 then map_option (\<lambda>v. v * 1000) (digits_val (drop 1 s))
      else if take 1 s = ''.'' \<and> length s = 7 then digits_val (drop 1 s)
      else None)"

definition parse_offset :: "string \<Rightarrow> int option option" where
  \<comment> \<open>nothing, \<^verbatim>\<open>+HH:MM\<close> or \<^verbatim>\<open>-HH:MM\<close>, to seconds east of UTC\<close>
  "parse_offset s =
     (if s = [] then Some None
      else case (digits_val (take 2 (drop 1 s)), digits_val (drop 4 s)) of
             (Some h, Some m) \<Rightarrow>
               if length s = 6 \<and> take 1 (drop 3 s) = '':'' \<and> h < 24 \<and> m < 60 then
                 (if take 1 s = ''+'' then Some (Some (h * 3600 + m * 60))
                  else if take 1 s = ''-'' then Some (Some (- (h * 3600 + m * 60)))
                  else None)
               else None
           | _ \<Rightarrow> None)"

definition cpython_fromisoformat :: "string \<Rightarrow> datetime option" where
  "cpython_fromisoformat s =
     (case parse_date (take 10 s) of
        None \<Rightarrow> None
      | Some days \<Rightarrow>
          if drop 10 s = [] then Some (Naive (days * 86400000000))
          else if take 1 (drop 10 s) \<noteq> ''T'' then None
          else
            (let clock = take 8 (drop 11 s);
                 tail = drop 19 s;
                 frac = takeWhile (\<lambda>c. c \<noteq> CHR ''+'' \<and> c \<noteq> CHR ''-'') tail;
                 off = dropWhile (\<lambda>c. c \<noteq> CHR ''+'' \<and> c \<noteq> CHR ''-'') tail
             in case (parse_clock clock, parse_fraction frac, parse_offset off) of
                  (Some secs, Some us, Some offset) \<Rightarrow>
                    (let local = (days * 86400 + secs) * 1000000 + us
                     in case offset of
                          None \<Rightarrow> Some (Naive local)
                        | Some east \<Rightarrow> Some (Aware (local - east * 1000000)))
                | _ \<Rightarrow> None))"

definition pad :: "nat \<Rightarrow> int \<Rightarrow> string" where
  \<comment> \<open>a non-negative integer, zero-filled to the given width\<close>
  "pad n i = replicate (n - length (str_nat (nat i))) (CHR ''0'') @ str_nat (nat i)"

definition cpython_isoformat :: "int \<Rightarrow> string" where
  "cpython_isoformat t =
     (let (y, m, d) = civil_from_days (t div 86400000000);
          secs = (t mod 86400000000) div 1000000;
          us = t mod 1000000
      in pad 4 y @ ''-'' @ pad 2 m @ ''-'' @ pad 2 d @ ''T''
         @ pad 2 (secs div 3600) @ '':'' @ pad 2 (secs mod 3600 div 60) @ '':'' @ pad 2 (secs mod 60)
         @ (if us = 0 then [] else ''.'' @ pad 6 us) @ ''+00:00'')"

definition cpython :: pylib where
  "cpython = \<lparr>fromisoformat = cpython_fromisoformat, isoformat = cpython_isoformat\<rparr>"

section \<open>Concrete sessions\<close>

definition entry :: "string \<Rightarrow> int \<Rightarrow> string \<Rightarrow> item" where
  \<comment> \<open>a record with every key present: title, votes, \<^verbatim>\<open>publishedAt\<close>\<close>
  "entry t v published =
     \<lparr>title = Some t,
      paper = Some \<lparr>ident = Some ''2408.00001'', upvotes = Some v,
                     authors = Some [\<lparr>name = Some ''A. Author''\<rparr>]\<rparr>,
      publishedAt = Some published,
      numComments = Some 0\<rparr>"

definition fresh :: item where
  "fresh = entry ''Fresh'' 10 ''2024-08-01T12:00:00.000Z''"

definition older :: item where
  "older = entry ''Older'' 54 ''2024-08-01T07:00:00.000Z''"

definition fresh_twin :: item where
  "fresh_twin = entry ''Fresh twin'' 10 ''2024-08-01T12:00:00.000Z''"

definition stale :: item where
  "stale = entry ''Stale'' 10 ''2024-08-01T07:00:00.000Z''"

definition unvoted :: item where
  "unvoted = entry ''Unvoted'' 0 ''2024-08-01T12:00:00.000Z''"

definition undated :: item where
  "undated = entry ''Undated'' 1 ''1 Jan 2024''"

definition popular :: item where
  "popular = entry ''Popular'' 100 ''2024-08-01T12:00:00.000Z''"

definition lone :: item where
  "lone = entry ''Lone'' 1 ''2024-08-01T12:00:00.000Z''"

definition ahead :: item where
  "ahead = entry ''Ahead'' 3 ''2024-08-01T17:00:00.000Z''"

definition in_an_hour :: item where
  "in_an_hour = entry ''In an hour'' 3 ''2024-08-01T15:00:00.000Z''"

definition unzoned :: item where
  "unzoned = entry ''Unzoned'' 5 ''2024-08-01T12:00:00''"

definition forty_five :: "item list" where
  "forty_five = replicate 45 fresh"

definition loaded :: PaperManager where
  \<comment> \<open>the session after the first fetch has returned \<open>forty_five\<close>\<close>
  "loaded = paper_manager\<lparr>raw_papers := forty_five, papers := forty_five, total_pages := 2\<rparr>"

definition reloaded :: PaperManager where
  \<comment> \<open>\<open>loaded\<close> after Next and a second fetch, of \<open>[fresh, ahead]\<close>, whose sort raised\<close>
  "reloaded = loaded\<lparr>current_page := 2, raw_papers := [fresh, ahead]\<rparr>"

definition ticking_from :: "int \<Rightarrow> world" where
  \<comment> \<open>a clock that advances by one microsecond at each reading\<close>
  "ticking_from t = \<lparr>ticks = (\<lambda>n. t + int n), reads = 0, stdout = []\<rparr>"

definition frozen_at :: "int \<Rightarrow> world" where
  \<comment> \<open>a clock too coarse to advance during the run\<close>
  "frozen_at t = \<lparr>ticks = (\<lambda>n. t), reads = 0, stdout = []\<rparr>"

definition two_pm :: int where
  \<comment> \<open>2024-08-01T14:00:00Z\<close>
  "two_pm = 1722520800000000"

section \<open>Evaluation of the library and of the arithmetic\<close>

lemmas cpython_defs =
  cpython_def cpython_fromisoformat_def replace_Z_def parse_date_def parse_clock_def
  parse_fraction_def parse_offset_def digits_val_def days_from_civil_def days_in_month_def
  is_leap_def

lemmas session_defs =
  entry_def fresh_def older_def fresh_twin_def stale_def unvoted_def undated_def popular_def
  lone_def ahead_def in_an_hour_def unzoned_def ticking_from_def frozen_at_def two_pm_def
  dict_get_def empty_dict_def paper_manager_def init_def

lemmas score_defs =
  calculate_score_def calculate_rising_score_def published_time_of_def time_diff_of_def now_def
  truediv_def float_pow_1_5_def total_hours_def

lemma powr_3_halves: "0 \<le> x \<Longrightarrow> x powr (3 / 2) = x * sqrt x" for x :: real
proof -
  assume x: "0 \<le> x"
  have "x powr (3 / 2) = x powr (1 + 1 / 2)" by simp
  also have "\<dots> = x powr 1 * x powr (1 / 2)" by (rule powr_add)
  also have "\<dots> = x * sqrt x" using x by (simp add: powr_half_sqrt)
  finally show ?thesis .
qed

lemma powr_1_5: "0 \<le> x \<Longrightarrow> x powr 1.5 = x * sqrt x" for x :: real
  using powr_3_halves [of x] by simp

section \<open>The scores\<close>









section \<open>Sorting\<close>

lemma sqrt_9: "sqrt 9 = 3"
  by (rule real_sqrt_unique) simp_all

lemma sort_papers_sorted_reverse:
  "sort_papers L self w =
     (case sorted_reverse (sort_key_of L (sort_method self)) (raw_papers self) w of
        (Inl e, w1) \<Rightarrow> (Inl e, self, w1)
      | (Inr ys, w1) \<Rightarrow> (Inr (), self\<lparr>papers := ys\<rparr>, w1))"
  by (simp add: sort_papers_def sort_key_of_def split: prod.splits sum.splits)

lemma py_lt_True_neq: "py_lt a b = Inr True \<Longrightarrow> a \<noteq> b"
  by (auto simp: py_lt_def split: pyval.splits)

lemma insort_desc_mset:
  "insort_desc p qs = Inr r \<Longrightarrow> mset r = add_mset p (mset qs)"
proof (induction qs arbitrary: r)
  case Nil
  then show ?case by simp
next
  case (Cons q qs)
  then show ?case
    by (auto split: sum.splits bool.splits)
qed

lemma sort_desc_mset: "sort_desc ps = Inr r \<Longrightarrow> mset r = mset ps"
proof (induction ps arbitrary: r)
  case Nil
  then show ?case by simp
next
  case (Cons p ps)
  then show ?case
    by (auto split: sum.splits dest: insort_desc_mset)
qed

lemma compute_keys_items:
  "compute_keys f xs w = (Inr ks, w') \<Longrightarrow> map snd ks = xs"
proof (induction xs arbitrary: w ks)
  case Nil
  then show ?case by simp
next
  case (Cons x xs)
  then show ?case
    by (auto split: prod.splits sum.splits)
qed

lemma sorted_reverse_mset:
  assumes "sorted_reverse f xs w = (Inr ys, w')"
  shows "mset ys = mset xs"
proof -
  from assms obtain ks r where ks: "compute_keys f xs w = (Inr ks, w')"
    and r: "sort_desc ks = Inr r" and ys: "ys = map snd r"
    by (auto simp: sorted_reverse_def split: prod.splits sum.splits)
  have "mset ys = image_mset snd (mset r)" using ys by simp
  also have "\<dots> = image_mset snd (mset ks)" using sort_desc_mset [OF r] by simp
  also have "\<dots> = mset (map snd ks)" by simp
  finally show ?thesis using compute_keys_items [OF ks] by simp
qed


lemma insort_desc_stable:
  "insort_desc p qs = Inr r \<Longrightarrow>
     filter (\<lambda>q. fst q = k) r = filter (\<lambda>q. fst q = k) (p # qs)"
proof (induction qs arbitrary: r)
  case Nil
  then show ?case by auto
next
  case (Cons q qs)
  show ?case
  proof (cases "py_lt (fst p) (fst q)")
    case (Inl e)
    with Cons.prems show ?thesis by simp
  next
    case (Inr b)
    show ?thesis
    proof (cases b)
      case True
      with Inr Cons.prems obtain r' where r': "insort_desc p qs = Inr r'" and r: "r = q # r'"
        by (auto split: sum.splits)
      from True Inr have ne: "fst p \<noteq> fst q" by (auto dest: py_lt_True_neq)
      from Cons.IH [OF r'] r ne show ?thesis by auto
    next
      case False
      with Inr Cons.prems show ?thesis by auto
    qed
  qed
qed

lemma sort_desc_stable:
  "sort_desc ps = Inr r \<Longrightarrow> filter (\<lambda>q. fst q = k) r = filter (\<lambda>q. fst q = k) ps"
proof (induction ps arbitrary: r)
  case Nil
  then show ?case by simp
next
  case (Cons p ps)
  from Cons.prems obtain ys where ys: "sort_desc ps = Inr ys" and r: "insort_desc p ys = Inr r"
    by (auto split: sum.splits)
  from insort_desc_stable [OF r, of k] Cons.IH [OF ys] show ?case by simp
qed

lemma py_lt_False_trans:
  "py_lt a b = Inr False \<Longrightarrow> py_lt b c = Inr False \<Longrightarrow> py_lt a c = Inr False"
  by (auto simp: py_lt_def split: pyval.splits)

lemma py_lt_True_flip: "py_lt a b = Inr True \<Longrightarrow> py_lt b a = Inr False"
  by (auto simp: py_lt_def split: pyval.splits)

lemma insort_desc_set: "insort_desc p qs = Inr r \<Longrightarrow> set r = insert p (set qs)"
  by (metis insort_desc_mset set_mset_add_mset_insert set_mset_mset)


lemma insort_desc_descending:
  "insort_desc p qs = Inr r \<Longrightarrow> descending qs \<Longrightarrow> descending r"
proof (induction qs arbitrary: r)
  case Nil
  then show ?case by (auto simp: descending_def)
next
  case (Cons q qs)
  from Cons.prems(2) have dq: "descending qs"
    and hq: "\<And>x. x \<in> set qs \<Longrightarrow> py_lt (fst q) (fst x) = Inr False"
    by (simp_all add: descending_def)
  show ?case
  proof (cases "py_lt (fst p) (fst q)")
    case (Inl e)
    with Cons.prems(1) show ?thesis by simp
  next
    case (Inr b)
    show ?thesis
    proof (cases b)
      case True
      with Inr have lt: "py_lt (fst p) (fst q) = Inr True" by simp
      with Cons.prems(1) obtain r' where r': "insort_desc p qs = Inr r'" and r: "r = q # r'"
        by (auto split: sum.splits)
      have d: "descending r'" using Cons.IH [OF r' dq] .
      have "py_lt (fst q) (fst x) = Inr False" if "x \<in> set r'" for x
      proof -
        from that insort_desc_set [OF r'] have "x = p \<or> x \<in> set qs" by simp
        then show ?thesis using py_lt_True_flip [OF lt] hq by blast
      qed
      with d r show ?thesis by (simp add: descending_def)
    next
      case False
      with Inr have ge: "py_lt (fst p) (fst q) = Inr False" by simp
      with Cons.prems(1) have r: "r = p # q # qs" by simp
      have "py_lt (fst p) (fst x) = Inr False" if "x \<in> set qs" for x
        using py_lt_False_trans [OF ge hq [OF that]] .
      with ge Cons.prems(2) r show ?thesis by (simp add: descending_def)
    qed
  qed
qed

lemma sort_desc_descending: "sort_desc ps = Inr r \<Longrightarrow> descending r"
proof (induction ps arbitrary: r)
  case Nil
  then show ?case by (simp add: descending_def)
next
  case (Cons p ps)
  from Cons.prems obtain ys where ys: "sort_desc ps = Inr ys" and r: "insort_desc p ys = Inr r"
    by (auto split: sum.splits)
  from insort_desc_descending [OF r Cons.IH [OF ys]] show ?case .
qed


lemma hot_keys_example:
  "compute_keys (calculate_score cpython) [fresh, older, fresh_twin] (frozen_at two_pm)
     = (Inr [(PFloat 1.25, fresh), (PFloat 2, older), (PFloat 1.25, fresh_twin)],
        (frozen_at two_pm)\<lparr>reads := 6\<rparr>)"
  by (simp add: calculate_score_def published_time_of_def time_diff_of_def now_def truediv_def
        float_pow_1_5_def session_defs cpython_defs total_hours_def powr_1_5 powr_3_halves sqrt_9)

lemma hot_sort_example:
  "sort_papers cpython (paper_manager\<lparr>raw_papers := [fresh, older, fresh_twin]\<rparr>)
       (frozen_at two_pm)
     = (Inr (),
        paper_manager\<lparr>raw_papers := [fresh, older, fresh_twin],
                        papers := [older, fresh, fresh_twin]\<rparr>,
        (frozen_at two_pm)\<lparr>reads := 6\<rparr>)"
  by (simp add: sort_papers_def sorted_reverse_def hot_keys_example py_lt_def paper_manager_def
        init_def del: compute_keys.simps)

text \<open>
  C8. Whenever \<^verbatim>\<open>sort_papers\<close> returns, under any sort method and for any collection,
  the empty one included, the sorted list has the length of the raw list and is a
  permutation of it.
\<close>

theorem sort_papers_permutation:
  assumes "sort_papers L self w = (Inr u, self', w')"
  shows "length (papers self') = length (raw_papers self)
         \<and> mset (papers self') = mset (raw_papers self)"
proof -
  from assms obtain ys where
    s: "sorted_reverse (sort_key_of L (sort_method self)) (raw_papers self) w = (Inr ys, w')"
    and p: "papers self' = ys"
    by (auto simp: sort_papers_sorted_reverse split: prod.splits sum.splits)
  have m: "mset (papers self') = mset (raw_papers self)"
    using sorted_reverse_mset [OF s] p by simp
  then show ?thesis by (metis size_mset)
qed

theorem sort_papers_permutation_witness:
  "fst (sort_papers cpython (paper_manager\<lparr>raw_papers := [fresh, older, fresh_twin]\<rparr>)
          (frozen_at two_pm)) = Inr ()
   \<and> length [older, fresh, fresh_twin] = length [fresh, older, fresh_twin]
   \<and> mset [older, fresh, fresh_twin] = mset [fresh, older, fresh_twin]"
  using sort_papers_permutation [OF hot_sort_example] hot_sort_example by simp

text \<open>
  C9. The sort is stable under every method. Let \<open>ks\<close> be the raw items paired, in input
  order, with the keys \<^verbatim>\<open>sorted\<close> computed for them (a score under Hot and Rising,
  the timestamp string under New). The sorted list is the items of a list \<open>ss\<close> of such
  pairs that is descending by key and in which, for every key, the pairs with that key
  stand in the order they have in \<open>ks\<close>.
\<close>

theorem sort_papers_stable:
  assumes "sort_papers L self w = (Inr u, self', w')"
  shows "\<exists>ks ss.
           compute_keys (sort_key_of L (sort_method self)) (raw_papers self) w = (Inr ks, w')
           \<and> map snd ks = raw_papers self
           \<and> map snd ss = papers self'
           \<and> descending ss
           \<and> (\<forall>k. filter (\<lambda>q. fst q = k) ss = filter (\<lambda>q. fst q = k) ks)"
proof -
  from assms obtain ks ss where
    ks: "compute_keys (sort_key_of L (sort_method self)) (raw_papers self) w = (Inr ks, w')"
    and ss: "sort_desc ks = Inr ss" and p: "papers self' = map snd ss"
    by (auto simp: sort_papers_sorted_reverse sorted_reverse_def split: prod.splits sum.splits)
  have "\<forall>k. filter (\<lambda>q. fst q = k) ss = filter (\<lambda>q. fst q = k) ks"
    using sort_desc_stable [OF ss] by simp
  with ks p compute_keys_items [OF ks] sort_desc_descending [OF ss] show ?thesis by auto
qed

theorem sort_papers_stable_witness:
  "papers (fst (snd (sort_papers cpython (paper_manager\<lparr>raw_papers := [fresh, older, fresh_twin]\<rparr>)
                       (frozen_at two_pm)))) = [older, fresh, fresh_twin]
   \<and> (\<exists>ks ss.
          compute_keys (calculate_score cpython) [fresh, older, fresh_twin] (frozen_at two_pm)
            = (Inr ks, (frozen_at two_pm)\<lparr>reads := 6\<rparr>)
          \<and> map snd ks = [fresh, older, fresh_twin]
          \<and> map snd ss = [older, fresh, fresh_twin]
          \<and> descending ss
          \<and> (\<forall>k. filter (\<lambda>q. fst q = k) ss = filter (\<lambda>q. fst q = k) ks))"
  using sort_papers_stable [OF hot_sort_example] hot_sort_example
  by (simp add: sort_key_of_def paper_manager_def init_def)

section \<open>The session\<close>

lemma sort_papers_frame:
  "\<exists>ps. fst (snd (sort_papers L self w)) = self\<lparr>papers := ps\<rparr>"
proof (cases "fst (sort_papers L self w)")
  case (Inl e)
  then have "fst (snd (sort_papers L self w)) = self\<lparr>papers := papers self\<rparr>"
    by (auto simp: sort_papers_sorted_reverse split: prod.splits sum.splits)
  then show ?thesis by blast
next
  case (Inr u)
  then show ?thesis
    by (auto simp: sort_papers_sorted_reverse split: prod.splits sum.splits)
qed

lemma set_sort_method_sort_method:
  "sort_method (fst (snd (set_sort_method L m self w)))
     = (if m \<in> {''hot'', ''new'', ''rising''} then m else ''hot'')"
proof -
  let ?m = "if m \<notin> set [''hot'', ''new'', ''rising''] then ''hot'' else m"
  obtain ps where ps: "fst (snd (sort_papers L (self\<lparr>sort_method := ?m\<rparr>)
                          (print (SettingSortMethod ?m) w))) = self\<lparr>sort_method := ?m, papers := ps\<rparr>"
    using sort_papers_frame by blast
  have "sort_method (fst (snd (set_sort_method L m self w))) = ?m"
    using ps by (auto simp: set_sort_method_def Let_def split: prod.splits sum.splits)
  then show ?thesis by auto
qed

text \<open>
  C10. \<^verbatim>\<open>change_sort_method\<close> lowercases the method before \<^verbatim>\<open>set_sort_method\<close>
  validates it: for every string \<open>m\<close> the session's sort method afterwards is
  \<open>lower m\<close> when that is one of \<^verbatim>\<open>hot\<close>, \<^verbatim>\<open>new\<close>, \<^verbatim>\<open>rising\<close>, and \<^verbatim>\<open>hot\<close>
  otherwise; the labels \<^verbatim>\<open>Hot\<close>, \<^verbatim>\<open>New\<close>, \<^verbatim>\<open>Rising\<close> of the interface select
  their own methods.
\<close>

theorem change_sort_method_lowercases:
  "sort_method (fst (snd (change_sort_method L m self w)))
     = (if lower m \<in> {''hot'', ''new'', ''rising''} then lower m else ''hot'')
   \<and> lower ''Hot'' = ''hot'' \<and> lower ''New'' = ''new'' \<and> lower ''Rising'' = ''rising''"
proof -
  have "fst (snd (change_sort_method L m self w))
          = fst (snd (set_sort_method L (lower m) self (print (ChangingSortMethod (lower m)) w)))"
    by (auto simp: change_sort_method_def Let_def split: prod.splits sum.splits bool.splits)
  then show ?thesis
    using set_sort_method_sort_method [of L "lower m" self "print (ChangingSortMethod (lower m)) w"]
    by (simp add: lower_def)
qed

theorem change_sort_method_lowercases_witness:
  "sort_method (fst (snd (change_sort_method cpython ''Rising'' paper_manager (frozen_at two_pm))))
     = ''rising''
   \<and> sort_method (fst (snd (change_sort_method cpython ''Trending'' paper_manager (frozen_at two_pm))))
     = ''hot''"
  using change_sort_method_lowercases [of cpython "''Rising''" paper_manager "frozen_at two_pm"]
    change_sort_method_lowercases [of cpython "''Trending''" paper_manager "frozen_at two_pm"]
  by (simp add: lower_def)

text \<open>
  C5, as the code has it. A fetch that succeeds with an empty list is reported as a
  failure: \<^verbatim>\<open>initialize_app\<close> returns the failure document, which is not the
  placeholder of an empty page, prints that no data was received, and leaves the session
  as it was; in the session the module creates, \<^verbatim>\<open>total_pages\<close> and
  \<^verbatim>\<open>current_page\<close> are 1.
\<close>

theorem empty_fetch_is_failure:
  "initialize_app L (Inr []) self w = (Inr failed_to_fetch, self, print NoDataReceived w)
   \<and> failed_to_fetch \<noteq> no_papers_available
   \<and> total_pages paper_manager = 1 \<and> current_page paper_manager = 1"
  by (simp add: initialize_app_def fetch_papers_def failed_to_fetch_def no_papers_available_def
        paper_manager_def init_def)

theorem empty_fetch_is_failure_witness:
  "initialize_app cpython (Inr []) paper_manager (frozen_at two_pm)
     = (Inr failed_to_fetch, paper_manager, print NoDataReceived (frozen_at two_pm))"
  using empty_fetch_is_failure [of cpython paper_manager "frozen_at two_pm"] by simp

text \<open>
  C5, as the claim states it, fails: after an empty fetch the output is not the placeholder.
\<close>

theorem empty_fetch_counterexample:
  "fst (initialize_app cpython (Inr []) paper_manager (frozen_at two_pm)) \<noteq> Inr no_papers_available"
  by (simp add: initialize_app_def fetch_papers_def failed_to_fetch_def no_papers_available_def)


section \<open>Pagination\<close>






lemma next_page_state:
  "fst (snd (next_page L self w))
     = (if current_page self < total_pages self
        then self\<lparr>current_page := current_page self + 1\<rparr> else self)"
  by (simp add: next_page_def Let_def split: prod.splits)
















section \<open>Scores as functions of votes and age\<close>







section \<open>Timestamps that do not parse\<close>










section \<open>Exceptions that reach the caller\<close>

lemma sort_papers_new_total:
  assumes "sort_method self = ''new''"
  shows "\<exists>ys. sort_papers L self w = (Inr (), self\<lparr>papers := ys\<rparr>, w)"
proof -
  have k: "compute_keys new_key xs w
             = (Inr (map (\<lambda>x. (PStr (dict_get (publishedAt x) []), x)) xs), w)" for xs
    by (induction xs) (simp_all add: new_key_def)
  have i: "\<exists>r. insort_desc (PStr a, x) (map (\<lambda>(b, y). (PStr b, y)) qs)
                 = Inr (map (\<lambda>(b, y). (PStr b, y)) r)" for a x qs
  proof (induction qs)
    case Nil
    have "insort_desc (PStr a, x) (map (\<lambda>(b, y). (PStr b, y)) [])
            = Inr (map (\<lambda>(b, y). (PStr b, y)) [(a, x)])"
      by simp
    then show ?case by blast
  next
    case (Cons q qs)
    obtain b y where q: "q = (b, y)" by (cases q)
    from Cons obtain r where
      r: "insort_desc (PStr a, x) (map (\<lambda>(b, y). (PStr b, y)) qs)
            = Inr (map (\<lambda>(b, y). (PStr b, y)) r)"
      by blast
    show ?case
    proof (cases "a < b")
      case True
      with q r have "insort_desc (PStr a, x) (map (\<lambda>(b, y). (PStr b, y)) (q # qs))
                       = Inr (map (\<lambda>(b, y). (PStr b, y)) (q # r))"
        by (simp add: py_lt_def)
      then show ?thesis by blast
    next
      case False
      with q have "insort_desc (PStr a, x) (map (\<lambda>(b, y). (PStr b, y)) (q # qs))
                     = Inr (map (\<lambda>(b, y). (PStr b, y)) ((a, x) # q # qs))"
        by (simp add: py_lt_def)
      then show ?thesis by blast
    qed
  qed
  have s: "\<exists>r. sort_desc (map (\<lambda>(b, y). (PStr b, y)) ps)
                 = Inr (map (\<lambda>(b, y). (PStr b, y)) r)" for ps :: "(string \<times> item) list"
  proof (induction ps)
    case Nil
    have "sort_desc (map (\<lambda>(b, y). (PStr b, y)) ([] :: (string \<times> item) list))
            = Inr (map (\<lambda>(b, y). (PStr b, y)) [])"
      by simp
    then show ?case by blast
  next
    case (Cons p ps)
    obtain a x where p: "p = (a, x)" by (cases p)
    from Cons obtain r where
      r: "sort_desc (map (\<lambda>(b, y). (PStr b, y)) ps) = Inr (map (\<lambda>(b, y). (PStr b, y)) r)"
      by blast
    from i [of a x r] p r show ?case by simp
  qed
  have m: "map (\<lambda>x. (PStr (dict_get (publishedAt x) []), x)) xs
             = map (\<lambda>(b, y). (PStr b, y)) (map (\<lambda>x. (dict_get (publishedAt x) [], x)) xs)"
    for xs :: "item list"
    by simp
  from s [of "map (\<lambda>x. (dict_get (publishedAt x) [], x)) (raw_papers self)"]
  obtain r where "sort_desc (map (\<lambda>x. (PStr (dict_get (publishedAt x) []), x)) (raw_papers self))
                    = Inr (map (\<lambda>(b, y). (PStr b, y)) r)"
    unfolding m by blast
  with assms k [of "raw_papers self"] show ?thesis
    by (auto simp: sort_papers_def sorted_reverse_def)
qed

lemma change_sort_method_sorted:
  assumes "(if lower m \<notin> set [''hot'', ''new'', ''rising''] then ''hot'' else lower m) = method"
    and "sort_papers L (self\<lparr>sort_method := method\<rparr>)
           (print (SettingSortMethod method) (print (ChangingSortMethod (lower m)) w))
           = (Inr u, s2, w1)"
  shows "fst (snd (change_sort_method L m self w)) = s2\<lparr>current_page := 1\<rparr>"
    and "fst (change_sort_method L m self w)
           = fst (render_papers L (s2\<lparr>current_page := 1\<rparr>) (print SortMethodSet w1))"
  unfolding change_sort_method_def set_sort_method_def Let_def assms
  by (simp_all add: case_prod_unfold)

lemma ahead_keys:
  "\<exists>z. compute_keys (calculate_score cpython) [fresh, ahead] w
         = (Inr [(PFloat 1.25, fresh), (PComplex z, ahead)], w\<lparr>reads := reads w + 4\<rparr>)"
  if "ticks w = (\<lambda>n. two_pm)"
proof -
  have nz: "Complex 0 (- 1) \<noteq> 0" by (simp add: complex_eq_iff)
  have "compute_keys (calculate_score cpython) [fresh, ahead] w
         = (Inr [(PFloat 1.25, fresh), (PComplex (3 / Complex 0 (- 1)), ahead)],
            w\<lparr>reads := reads w + 4\<rparr>)"
    using that nz by (simp add: score_defs ahead_def session_defs cpython_defs)
  then show ?thesis by blast
qed

lemma hot_sort_ahead:
  assumes "ticks w = (\<lambda>n. two_pm)" and "sort_method self = ''hot''"
    and "raw_papers self = [fresh, ahead]"
  shows "sort_papers cpython self w = (Inl TypeError, self, w\<lparr>reads := reads w + 4\<rparr>)"
proof -
  from ahead_keys [OF assms(1)] obtain z where
    "compute_keys (calculate_score cpython) [fresh, ahead] w
         = (Inr [(PFloat 1.25, fresh), (PComplex z, ahead)], w\<lparr>reads := reads w + 4\<rparr>)"
    by blast
  then show ?thesis
    using assms(2,3)
    by (simp add: sort_papers_def sorted_reverse_def py_lt_def del: compute_keys.simps)
qed

text \<open>
  C7 fails on the code. Two items, one published three hours after the reading of the
  clock: its Hot score is complex and the comparison raises \<^verbatim>\<open>TypeError\<close>. An item
  published exactly one hour after the reading: the Rising score divides by zero. A
  timestamp with no offset parses to a naive \<^verbatim>\<open>datetime\<close>, and subtracting it from the
  aware current time raises \<^verbatim>\<open>TypeError\<close>: in the sort under Hot, so that the first
  fetch reports a failure, and, once New has sorted the list by the strings, in
  \<^verbatim>\<open>format_paper\<close>, from where it leaves \<^verbatim>\<open>render_papers\<close> and
  \<^verbatim>\<open>change_sort_method\<close>.
\<close>

theorem sort_and_render_raise:
  "fst (sort_papers cpython (paper_manager\<lparr>raw_papers := [fresh, ahead]\<rparr>) (frozen_at two_pm))
     = Inl TypeError
   \<and> fst (sort_papers cpython
            (paper_manager\<lparr>sort_method := ''rising'', raw_papers := [fresh, in_an_hour]\<rparr>)
            (frozen_at two_pm))
     = Inl ZeroDivisionError
   \<and> fst (sort_papers cpython (paper_manager\<lparr>raw_papers := [unzoned]\<rparr>) (frozen_at two_pm))
     = Inl TypeError
   \<and> initialize_app cpython (Inr [unzoned]) paper_manager (frozen_at two_pm)
     = (Inr failed_to_fetch, paper_manager\<lparr>raw_papers := [unzoned]\<rparr>,
        print (UnexpectedError TypeError)
          ((print (KeysInFirstPaper unzoned) (frozen_at two_pm))\<lparr>reads := 2\<rparr>))
   \<and> fst (change_sort_method cpython ''New'' (paper_manager\<lparr>raw_papers := [unzoned]\<rparr>)
            (frozen_at two_pm))
     = Inl TypeError
   \<and> fst (snd (change_sort_method cpython ''New'' (paper_manager\<lparr>raw_papers := [unzoned]\<rparr>)
                 (frozen_at two_pm)))
     = paper_manager\<lparr>sort_method := ''new'', raw_papers := [unzoned], papers := [unzoned]\<rparr>
   \<and> fst (render_papers cpython
            (paper_manager\<lparr>sort_method := ''new'', raw_papers := [unzoned], papers := [unzoned]\<rparr>)
            (frozen_at two_pm))
     = Inl TypeError"
proof -
  have a: "fst (sort_papers cpython (paper_manager\<lparr>raw_papers := [fresh, ahead]\<rparr>) (frozen_at two_pm))
     = Inl TypeError"
    using hot_sort_ahead [of "frozen_at two_pm" "paper_manager\<lparr>raw_papers := [fresh, ahead]\<rparr>"]
    by (simp add: paper_manager_def init_def frozen_at_def)
  have b: "fst (sort_papers cpython
            (paper_manager\<lparr>sort_method := ''rising'', raw_papers := [fresh, in_an_hour]\<rparr>)
            (frozen_at two_pm))
     = Inl ZeroDivisionError"
    by (simp add: sort_papers_def sorted_reverse_def score_defs in_an_hour_def session_defs
          cpython_defs)
  have c: "sort_papers cpython (paper_manager\<lparr>raw_papers := [unzoned]\<rparr>) w
     = (Inl TypeError, paper_manager\<lparr>raw_papers := [unzoned]\<rparr>, w\<lparr>reads := reads w + 2\<rparr>)" for w
    by (simp add: sort_papers_def sorted_reverse_def score_defs unzoned_def session_defs
          cpython_defs)
  have r: "fst (render_papers cpython self w) = Inl TypeError"
    if "papers self = [unzoned]" "current_page self = 1" "papers_per_page self = 30" for self w
    using that
    by (simp add: render_papers_def slice_def format_paper_def published_time_of_def
          time_diff_of_def now_def unzoned_def session_defs cpython_defs)
  have s: "sort_papers cpython self w = (Inr (), self\<lparr>papers := [unzoned]\<rparr>, w)"
    if "sort_method self = ''new''" "raw_papers self = [unzoned]" for self w
    using that by (simp add: sort_papers_def sorted_reverse_def new_key_def)
  have d: "initialize_app cpython (Inr [unzoned]) paper_manager (frozen_at two_pm)
     = (Inr failed_to_fetch, paper_manager\<lparr>raw_papers := [unzoned]\<rparr>,
        print (UnexpectedError TypeError)
          ((print (KeysInFirstPaper unzoned) (frozen_at two_pm))\<lparr>reads := 2\<rparr>))"
    by (simp add: initialize_app_def fetch_papers_def c) (simp add: print_def frozen_at_def)
  have e: "fst (change_sort_method cpython ''New'' (paper_manager\<lparr>raw_papers := [unzoned]\<rparr>)
                 (frozen_at two_pm))
             = Inl TypeError
           \<and> fst (snd (change_sort_method cpython ''New'' (paper_manager\<lparr>raw_papers := [unzoned]\<rparr>)
                        (frozen_at two_pm)))
             = paper_manager\<lparr>sort_method := ''new'', raw_papers := [unzoned], papers := [unzoned]\<rparr>"
    by (simp add: change_sort_method_def set_sort_method_def Let_def lower_def s r
          paper_manager_def init_def case_prod_unfold)
  have f: "fst (render_papers cpython
            (paper_manager\<lparr>sort_method := ''new'', raw_papers := [unzoned], papers := [unzoned]\<rparr>)
            (frozen_at two_pm))
     = Inl TypeError"
    by (rule r) (simp_all add: paper_manager_def init_def)
  from a b c d e f show ?thesis by simp
qed


text \<open>
  C4 fails on the code. A session holds 45 papers and shows page 2; a reload fetches two
  items, one of them published three hours after the reading of the clock, and the sort
  of that fetch raises, which \<^verbatim>\<open>fetch_papers\<close> catches. Then
  \<^verbatim>\<open>change_sort_method("bogus")\<close> raises \<^verbatim>\<open>TypeError\<close> to its caller; the papers
  are not sorted again and the page stays 2.
\<close>

theorem change_sort_raises:
  "fst (snd (next_page cpython loaded (frozen_at two_pm))) = loaded\<lparr>current_page := 2\<rparr>
   \<and> fetch_papers cpython (Inr [fresh, ahead]) (loaded\<lparr>current_page := 2\<rparr>) (frozen_at two_pm)
       = (False, reloaded,
          print (UnexpectedError TypeError)
            ((print (KeysInFirstPaper fresh) (frozen_at two_pm))\<lparr>reads := 4\<rparr>))
   \<and> fst (change_sort_method cpython ''bogus'' reloaded (frozen_at two_pm)) = Inl TypeError
   \<and> fst (snd (change_sort_method cpython ''bogus'' reloaded (frozen_at two_pm))) = reloaded
   \<and> current_page reloaded = 2 \<and> papers reloaded = forty_five"
proof -
  have a: "fst (snd (next_page cpython loaded (frozen_at two_pm))) = loaded\<lparr>current_page := 2\<rparr>"
    by (simp add: next_page_state loaded_def paper_manager_def init_def)
  have b: "fetch_papers cpython (Inr [fresh, ahead]) (loaded\<lparr>current_page := 2\<rparr>) (frozen_at two_pm)
       = (False, reloaded,
          print (UnexpectedError TypeError)
            ((print (KeysInFirstPaper fresh) (frozen_at two_pm))\<lparr>reads := 4\<rparr>))"
    using hot_sort_ahead [of "print (KeysInFirstPaper fresh) (frozen_at two_pm)"
            "loaded\<lparr>current_page := 2, raw_papers := [fresh, ahead]\<rparr>"]
    by (simp add: fetch_papers_def reloaded_def loaded_def paper_manager_def init_def print_def
          frozen_at_def)
  have c: "change_sort_method cpython ''bogus'' reloaded (frozen_at two_pm)
       = (Inl TypeError, reloaded,
          (print (SettingSortMethod ''hot'')
             (print (ChangingSortMethod ''bogus'') (frozen_at two_pm)))\<lparr>reads := 4\<rparr>)"
    using hot_sort_ahead [of "print (SettingSortMethod ''hot'')
             (print (ChangingSortMethod ''bogus'') (frozen_at two_pm))" reloaded]
    by (simp add: change_sort_method_def set_sort_method_def Let_def lower_def reloaded_def
          loaded_def paper_manager_def init_def print_def frozen_at_def)
  have d: "current_page reloaded = 2 \<and> papers reloaded = forty_five"
    by (simp add: reloaded_def loaded_def)
  from a b c d show ?thesis by simp
qed


end
